theory Spec2Isabelle
  imports Complex_Main
begin

unbundle bit_operations_syntax

section \<open>pySlice: the mesh model of \<open>Model3D.py\<close>\<close>

text \<open>
  The module holds a triangulated surface: \<open>Vector3\<close> points with a content key,
  \<open>Normal\<close> directions, the \<open>Edge\<close> containment test, \<open>Triangle\<close> with its
  two degeneracy checks and its z-slicing, and \<open>Model3D\<close> with its vertex and normal pools,
  its triangle list and its extents.

  Conventions of the embedding.
  \<^item> A Python float is read as the real number it stands for: \<open>+\<close>, \<open>-\<close>, \<open>*\<close>, \<open>/\<close>,
    \<open>sqrt\<close> and the comparisons are the exact ones, so rounding, overflow, infinities and
    NaN are outside the model. The sign of a zero is kept in the coordinates of a
    \<open>Vector3\<close>, because \<open>%f\<close> prints it into the key; the points that the slicing
    methods return are real numbers. \<open>float(x)\<close> is the identity.
  \<^item> Every \<open>raise\<close> is a value: a function that can raise returns \<open>error + 'a\<close>,
    and a method that mutates \<open>self\<close> before it raises returns the result together with
    the state it leaves behind.
  \<^item> A \<open>Vector3\<close> object is never mutated after its constructor, so a reference to one is
    the pair of its identity and its contents (\<open>vref\<close>). Temporaries, whose identity is
    never observed, are plain \<open>Vector3\<close> values.
  \<^item> The two-element list \<open>Edge.p\<close> and the three-element list \<open>Triangle.vertices\<close>
    are built in one place each with a fixed length; they are a pair and a triple.
\<close>

subsection \<open>Errors\<close>

datatype error =
    ValueError string
  | ZeroDivisionError
  | TypeError
  | KeyError

definition DegenerateGeometry :: "error \<Rightarrow> bool" where
  "DegenerateGeometry e \<longleftrightarrow>
     e = ValueError ''Degenerate Facet; Coincident Points'' \<or>
     e = ValueError ''Degenerate Facet; Colinear Points''"

subsection \<open>\<open>hashlib.md5\<close>\<close>

text \<open>
  The digest of RFC 1321 on bytes, with 32-bit words as natural numbers and the wrap-around
  written out. \<open>md5_hexdigest s\<close> is \<open>md5(s.encode('utf-8')).hexdigest()\<close> for an ASCII
  string \<open>s\<close>.
\<close>

definition md5_K :: "nat list" where
  "md5_K = [0xd76aa478, 0xe8c7b756, 0x242070db, 0xc1bdceee, 0xf57c0faf, 0x4787c62a, 0xa8304613, 0xfd469501,
            0x698098d8, 0x8b44f7af, 0xffff5bb1, 0x895cd7be, 0x6b901122, 0xfd987193, 0xa679438e, 0x49b40821,
            0xf61e2562, 0xc040b340, 0x265e5a51, 0xe9b6c7aa, 0xd62f105d, 0x02441453, 0xd8a1e681, 0xe7d3fbc8,
            0x21e1cde6, 0xc33707d6, 0xf4d50d87, 0x455a14ed, 0xa9e3e905, 0xfcefa3f8, 0x676f02d9, 0x8d2a4c8a,
            0xfffa3942, 0x8771f681, 0x6d9d6122, 0xfde5380c, 0xa4beea44, 0x4bdecfa9, 0xf6bb4b60, 0xbebfbc70,
            0x289b7ec6, 0xeaa127fa, 0xd4ef3085, 0x04881d05, 0xd9d4d039, 0xe6db99e5, 0x1fa27cf8, 0xc4ac5665,
            0xf4292244, 0x432aff97, 0xab9423a7, 0xfc93a039, 0x655b59c3, 0x8f0ccc92, 0xffeff47d, 0x85845dd1,
            0x6fa87e4f, 0xfe2ce6e0, 0xa3014314, 0x4e0811a1, 0xf7537e82, 0xbd3af235, 0x2ad7d2bb, 0xeb86d391]"

definition md5_s :: "nat list" where
  "md5_s = [7, 12, 17, 22, 7, 12, 17, 22, 7, 12, 17, 22, 7, 12, 17, 22,
            5, 9, 14, 20, 5, 9, 14, 20, 5, 9, 14, 20, 5, 9, 14, 20,
            4, 11, 16, 23, 4, 11, 16, 23, 4, 11, 16, 23, 4, 11, 16, 23,
            6, 10, 15, 21, 6, 10, 15, 21, 6, 10, 15, 21, 6, 10, 15, 21]"

definition add32 :: "nat \<Rightarrow> nat \<Rightarrow> nat" where
  "add32 a b = (a + b) mod 4294967296"

definition not32 :: "nat \<Rightarrow> nat" where
  "not32 a = a XOR 4294967295"

definition rotl32 :: "nat \<Rightarrow> nat \<Rightarrow> nat" where
  "rotl32 w n = (w * 2 ^ n) mod 4294967296 + w div 2 ^ (32 - n)"

type_synonym md5_state = "nat \<times> nat \<times> nat \<times> nat"

fun md5_step :: "nat list \<Rightarrow> nat \<Rightarrow> md5_state \<Rightarrow> md5_state" where
  "md5_step M i (A, B, C, D) =
     (D,
      add32 B (rotl32
        (if i < 16 then
           add32 (add32 (add32 ((B AND C) OR (not32 B AND D)) A) (md5_K ! i)) (M ! i)
         else if i < 32 then
           add32 (add32 (add32 ((D AND B) OR (not32 D AND C)) A) (md5_K ! i)) (M ! ((5 * i + 1) mod 16))
         else if i < 48 then
           add32 (add32 (add32 (B XOR C XOR D) A) (md5_K ! i)) (M ! ((3 * i + 5) mod 16))
         else
           add32 (add32 (add32 (C XOR (B OR not32 D)) A) (md5_K ! i)) (M ! ((7 * i) mod 16)))
        (md5_s ! i)),
      B, C)"

function md5_rounds :: "nat list \<Rightarrow> nat \<Rightarrow> md5_state \<Rightarrow> md5_state" where
  "md5_rounds M i st = (if 64 \<le> i then st else md5_rounds M (i + 1) (md5_step M i st))"
  by pat_completeness auto
termination
  by (relation "measure (\<lambda>(M, i, st). 64 - i)") auto

declare md5_step.simps [simp del]
declare md5_rounds.simps [simp del]

fun le_words :: "nat list \<Rightarrow> nat list" where
  "le_words (b0 # b1 # b2 # b3 # rest) =
     (b0 + 256 * b1 + 65536 * b2 + 16777216 * b3) # le_words rest"
| "le_words rest = []"

fun add_state :: "md5_state \<Rightarrow> md5_state \<Rightarrow> md5_state" where
  "add_state (a0, b0, c0, d0) (A, B, C, D) = (add32 a0 A, add32 b0 B, add32 c0 C, add32 d0 D)"

definition md5_block :: "md5_state \<Rightarrow> nat list \<Rightarrow> md5_state" where
  "md5_block st block = add_state st (md5_rounds (le_words block) 0 st)"

function md5_blocks :: "md5_state \<Rightarrow> nat list \<Rightarrow> md5_state" where
  "md5_blocks st bytes =
     (if length bytes < 64 then st
      else md5_blocks (md5_block st (take 64 bytes)) (drop 64 bytes))"
  by pat_completeness auto
termination
  by (relation "measure (\<lambda>(st, bytes). length bytes)") auto

declare md5_blocks.simps [simp del]

definition le_bytes :: "nat \<Rightarrow> nat \<Rightarrow> nat list" where
  "le_bytes k n = map (\<lambda>i. (n div 256 ^ i) mod 256) [0..<k]"

definition md5_pad :: "nat list \<Rightarrow> nat list" where
  "md5_pad msg =
     msg @ [128] @ replicate ((119 - length msg mod 64) mod 64) 0
         @ le_bytes 8 ((8 * length msg) mod 2 ^ 64)"

definition hex_byte :: "nat \<Rightarrow> string" where
  "hex_byte b = [''0123456789abcdef'' ! (b div 16), ''0123456789abcdef'' ! (b mod 16)]"

fun hex_state :: "md5_state \<Rightarrow> string" where
  "hex_state (a, b, c, d) =
     concat (map hex_byte (le_bytes 4 a @ le_bytes 4 b @ le_bytes 4 c @ le_bytes 4 d))"

definition md5_hexdigest :: "string \<Rightarrow> string" where
  "md5_hexdigest s =
     hex_state (md5_blocks (0x67452301, 0xefcdab89, 0x98badcfe, 0x10325476)
                  (md5_pad (map of_char s)))"

subsection \<open>Floats\<close>

text \<open>
  A float is a real number or the negative zero; \<open>Num 0\<close> is the positive zero. \<open>val\<close> is
  the number it stands for and \<open>sign_bit\<close> its sign bit. The sum, difference and product
  are the exact real results, and a result that is zero carries the sign that IEEE 754
  arithmetic in round-to-nearest gives it: a sum is the negative zero when both operands are
  negative zeros, a difference when a negative zero has a positive zero taken from it, and a
  product when it is zero and the operands' sign bits differ.
\<close>

datatype pyfloat = Num real | NegZero

fun val :: "pyfloat \<Rightarrow> real" where
  "val (Num r) = r"
| "val NegZero = 0"

fun sign_bit :: "pyfloat \<Rightarrow> bool" where
  "sign_bit (Num r) = (r < 0)"
| "sign_bit NegZero = True"

definition signed :: "bool \<Rightarrow> real \<Rightarrow> pyfloat" where
  "signed negative r = (if r = 0 \<and> negative then NegZero else Num r)"

definition fadd :: "pyfloat \<Rightarrow> pyfloat \<Rightarrow> pyfloat" where
  "fadd a b = signed (sign_bit a \<and> sign_bit b) (val a + val b)"

definition fsub :: "pyfloat \<Rightarrow> pyfloat \<Rightarrow> pyfloat" where
  "fsub a b = signed (sign_bit a \<and> \<not> sign_bit b) (val a - val b)"

definition fmul :: "pyfloat \<Rightarrow> pyfloat \<Rightarrow> pyfloat" where
  "fmul a b = signed (sign_bit a \<noteq> sign_bit b) (val a * val b)"

subsection \<open>The \<open>%f\<close> conversion\<close>

text \<open>
  \<open>'%f' % v\<close> prints a float with six digits after the point: a minus sign when the sign
  bit is set (so also for the negative zero and for a negative value that rounds to zero),
  then the value's magnitude rounded to a multiple of one millionth, ties to the even
  multiple.
\<close>

definition round_half_even :: "real \<Rightarrow> nat" where
  "round_half_even v =
     (let f = \<lfloor>v\<rfloor>; r = v - of_int f
      in nat (if r < 1 / 2 then f else if 1 / 2 < r then f + 1 else if even f then f else f + 1))"

definition digit :: "nat \<Rightarrow> char" where
  "digit d = ''0123456789'' ! d"

function decimal :: "nat \<Rightarrow> string" where
  "decimal n = (if n < 10 then [digit n] else decimal (n div 10) @ [digit (n mod 10)])"
  by pat_completeness auto
termination
  by (relation "measure id") auto

declare decimal.simps [simp del]

definition format_f :: "pyfloat \<Rightarrow> string" where
  "format_f v =
     (let m = round_half_even (\<bar>val v\<bar> * 1000000)
      in (if sign_bit v then ''-'' else '''') @ decimal (m div 1000000) @ ''.'' @
         [digit (m div 100000 mod 10), digit (m div 10000 mod 10), digit (m div 1000 mod 10),
          digit (m div 100 mod 10), digit (m div 10 mod 10), digit (m mod 10)])"

subsection \<open>\<open>Vector3\<close>\<close>

definition DIFFERENCE_LIMIT :: real where
  "DIFFERENCE_LIMIT = 1 / 10000000"

text \<open>
  The attributes \<open>x\<close>, \<open>y\<close>, \<open>z\<close> are the floats \<open>fx\<close>, \<open>fy\<close>, \<open>fz\<close>;
  \<open>vx\<close>, \<open>vy\<close>, \<open>vz\<close> are the numbers they stand for, which is all that a
  comparison or a division reads.
\<close>

record Vector3 =
  fx :: pyfloat
  fy :: pyfloat
  fz :: pyfloat
  hash :: string

definition vx :: "Vector3 \<Rightarrow> real" where
  "vx v = val (fx v)"

definition vy :: "Vector3 \<Rightarrow> real" where
  "vy v = val (fy v)"

definition vz :: "Vector3 \<Rightarrow> real" where
  "vz v = val (fz v)"

definition key_string :: "pyfloat \<Rightarrow> pyfloat \<Rightarrow> pyfloat \<Rightarrow> string" where
  "key_string a b c = ''('' @ format_f a @ '', '' @ format_f b @ '', '' @ format_f c @ '')''"

definition Vector3_init :: "pyfloat \<Rightarrow> pyfloat \<Rightarrow> pyfloat \<Rightarrow> Vector3" where
  "Vector3_init a b c = \<lparr>fx = a, fy = b, fz = c, hash = md5_hexdigest (key_string a b c)\<rparr>"

definition Vector3_add :: "Vector3 \<Rightarrow> Vector3 \<Rightarrow> Vector3" where
  "Vector3_add self other =
     Vector3_init (fadd (fx self) (fx other)) (fadd (fy self) (fy other)) (fadd (fz self) (fz other))"

definition Vector3_sub :: "Vector3 \<Rightarrow> Vector3 \<Rightarrow> Vector3" where
  "Vector3_sub self other =
     Vector3_init (fsub (fx self) (fx other)) (fsub (fy self) (fy other)) (fsub (fz self) (fz other))"

definition Vector3_eq :: "Vector3 \<Rightarrow> Vector3 \<Rightarrow> bool" where
  "Vector3_eq self other \<longleftrightarrow>
     \<bar>vx self - vx other\<bar> < DIFFERENCE_LIMIT \<and>
     \<bar>vy self - vy other\<bar> < DIFFERENCE_LIMIT \<and>
     \<bar>vz self - vz other\<bar> < DIFFERENCE_LIMIT"

definition Vector3_mul :: "Vector3 \<Rightarrow> pyfloat \<Rightarrow> Vector3" where
  "Vector3_mul self multi =
     Vector3_init (fmul (fx self) multi) (fmul (fy self) multi) (fmul (fz self) multi)"

definition Vector3_length :: "Vector3 \<Rightarrow> real" where
  "Vector3_length self = sqrt (vx self * vx self + vy self * vy self + vz self * vz self)"

definition cross :: "Vector3 \<Rightarrow> Vector3 \<Rightarrow> Vector3" where
  "cross self other =
     Vector3_init (fsub (fmul (fy self) (fz other)) (fmul (fz self) (fy other)))
                  (fsub (fmul (fz self) (fx other)) (fmul (fx self) (fz other)))
                  (fsub (fmul (fx self) (fy other)) (fmul (fy self) (fx other)))"

text \<open>A reference to an allocated \<open>Vector3\<close> (or \<open>Normal\<close>): identity and contents.\<close>

datatype vref = Ref (ident: nat) (obj: Vector3)

subsection \<open>\<open>Normal\<close>\<close>

definition Normal_init :: "pyfloat \<Rightarrow> pyfloat \<Rightarrow> pyfloat \<Rightarrow> error + Vector3" where
  "Normal_init dx dy dz =
     (let l = sqrt (val dx * val dx + val dy * val dy + val dz * val dz)
      in if l = 0 then Inl (ValueError ''Length of Vector is 0'')
         else Inr (Vector3_init dx dy dz))"

subsection \<open>\<open>Edge\<close>\<close>

record Edge =
  p :: "vref \<times> vref"
  refs :: "nat list"

definition Edge_init :: "vref \<Rightarrow> vref \<Rightarrow> Edge" where
  "Edge_init start end' = \<lparr>p = (start, end'), refs = []\<rparr>"

definition contains :: "Edge \<Rightarrow> vref \<Rightarrow> bool" where
  "contains self point =
     (let d1 = Vector3_sub (obj (snd (p self))) (obj (fst (p self)));
          d2 = Vector3_sub (obj point) (obj (fst (p self)));
          xp = cross d1 d2
      in if Vector3_length xp = 0 \<and> (0 \<le> Vector3_length d2 \<and> Vector3_length d2 \<le> 1)
         then True else False)"

subsection \<open>\<open>Triangle\<close>\<close>

record Triangle =
  tri_vertices :: "vref \<times> vref \<times> vref"
  tri_norm :: vref

text \<open>
  The argument \<open>norm\<close> (here \<open>norm'\<close>) is \<open>Some n\<close> when it is an instance of
  \<open>Normal\<close> and \<open>None\<close> otherwise. \<open>fresh\<close> is the identity that the \<open>Normal\<close>
  allocated by the constructor receives when it computes one.
\<close>

definition Triangle_init :: "nat \<Rightarrow> vref \<Rightarrow> vref \<Rightarrow> vref \<Rightarrow> vref option \<Rightarrow> error + Triangle" where
  "Triangle_init fresh p1 p2 p3 norm' =
     (if Vector3_eq (obj p1) (obj p2) \<or> Vector3_eq (obj p1) (obj p3) then
        Inl (ValueError ''Degenerate Facet; Coincident Points'')
      else if contains (Edge_init p1 p2) p3 then
        Inl (ValueError ''Degenerate Facet; Colinear Points'')
      else
        (case norm' of
           Some n \<Rightarrow> Inr \<lparr>tri_vertices = (p1, p2, p3), tri_norm = n\<rparr>
         | None \<Rightarrow>
             (let d1 = Vector3_sub (obj p2) (obj p1);
                  d2 = Vector3_sub (obj p3) (obj p2);
                  xp = cross d1 d2
              in case Normal_init (fx xp) (fy xp) (fz xp) of
                   Inl e \<Rightarrow> Inl e
                 | Inr n \<Rightarrow> Inr \<lparr>tri_vertices = (p1, p2, p3), tri_norm = Ref fresh n\<rparr>)))"

definition findInterpolatedPoint ::
    "real \<times> real \<times> real \<Rightarrow> real \<times> real \<times> real \<Rightarrow> real \<Rightarrow> error + real \<times> real" where
  "findInterpolatedPoint A B targetz =
     (case (A, B) of ((A0, A1, A2), (B0, B1, B2)) \<Rightarrow>
        (let V = (B0 - A0, B1 - A1, B2 - A2);
             refz = targetz - A2
         in if snd (snd V) = 0 then Inl ZeroDivisionError
            else (let n = refz / snd (snd V)
                  in Inr (n * fst V + A0, n * fst (snd V) + A1))))"

text \<open>
  \<open>find_interpolated_points_at_z\<close>: the list \<open>pair\<close> grows by one point for each of the
  three edge tests that succeeds, in the order (0,1), (0,2), (1,2), and then by at most one
  vertex from the \<open>if\<close>/\<open>elif\<close> chain. A \<open>ZeroDivisionError\<close> from
  \<open>findInterpolatedPoint\<close> would leave the method at once.
\<close>

definition find_interpolated_points_at_z :: "Triangle \<Rightarrow> real \<Rightarrow> error + (real \<times> real) list" where
  "find_interpolated_points_at_z self targetz =
     (case tri_vertices self of (r0, r1, r2) \<Rightarrow>
      (let v0 = obj r0; v1 = obj r1; v2 = obj r2; pair = []
       in case (if (vz v0 > targetz \<and> vz v1 < targetz) \<or> (vz v0 < targetz \<and> vz v1 > targetz)
                then (case findInterpolatedPoint (vx v0, vy v0, vz v0) (vx v1, vy v1, vz v1) targetz of
                        Inl e \<Rightarrow> Inl e | Inr coords \<Rightarrow> Inr (pair @ [coords]))
                else Inr pair) of
            Inl e \<Rightarrow> Inl e
          | Inr pair \<Rightarrow>
       (case (if (vz v0 > targetz \<and> vz v2 < targetz) \<or> (vz v0 < targetz \<and> vz v2 > targetz)
                then (case findInterpolatedPoint (vx v0, vy v0, vz v0) (vx v2, vy v2, vz v2) targetz of
                        Inl e \<Rightarrow> Inl e | Inr coords \<Rightarrow> Inr (pair @ [coords]))
                else Inr pair) of
            Inl e \<Rightarrow> Inl e
          | Inr pair \<Rightarrow>
       (case (if (vz v1 > targetz \<and> vz v2 < targetz) \<or> (vz v1 < targetz \<and> vz v2 > targetz)
                then (case findInterpolatedPoint (vx v1, vy v1, vz v1) (vx v2, vy v2, vz v2) targetz of
                        Inl e \<Rightarrow> Inl e | Inr coords \<Rightarrow> Inr (pair @ [coords]))
                else Inr pair) of
            Inl e \<Rightarrow> Inl e
          | Inr pair \<Rightarrow>
              (if vz v0 = targetz then Inr (pair @ [(vx v0, vy v0)])
               else if vz v1 = targetz then Inr (pair @ [(vx v1, vy v1)])
               else if vz v2 = targetz then Inr (pair @ [(vx v2, vy v2)])
               else Inr pair)))))"

subsection \<open>\<open>Model3D\<close>\<close>

record Model3D =
  triangles :: "Triangle list"
  vertices :: "string \<rightharpoonup> vref"
  normals :: "string \<rightharpoonup> vref"
  name :: string
  xmin :: "real option"
  xmax :: "real option"
  ymin :: "real option"
  ymax :: "real option"
  zmin :: "real option"
  zmax :: "real option"
  mx :: real
  my :: real
  mz :: real

definition Model3D_init :: "'f option \<Rightarrow> error + Model3D" where
  "Model3D_init f =
     (case f of
        None \<Rightarrow> Inl (ValueError ''You must provide a file.'')
      | Some file \<Rightarrow>
          Inr \<lparr>triangles = [], vertices = Map.empty, normals = Map.empty, name = [],
               xmin = None, xmax = None, ymin = None, ymax = None, zmin = None, zmax = None,
               mx = 0, my = 0, mz = 0\<rparr>)"

text \<open>
  One \<open>if c < lo: lo = c elif c > hi: hi = c\<close> step of \<open>update_extents\<close>. Comparing a
  float with \<open>None\<close> raises \<open>TypeError\<close>.
\<close>

definition widen :: "real \<Rightarrow> real option \<Rightarrow> real option \<Rightarrow> error + real option \<times> real option" where
  "widen c lo hi =
     (case lo of
        None \<Rightarrow> Inl TypeError
      | Some l \<Rightarrow>
          if c < l then Inr (Some c, hi)
          else (case hi of
                  None \<Rightarrow> Inl TypeError
                | Some h \<Rightarrow> if c > h then Inr (lo, Some c) else Inr (lo, hi)))"

definition extents_vertex :: "vref \<Rightarrow> Model3D \<Rightarrow> (error + unit) \<times> Model3D" where
  "extents_vertex vertex self =
     (case widen (vx (obj vertex)) (xmin self) (xmax self) of
        Inl e \<Rightarrow> (Inl e, self)
      | Inr (lo, hi) \<Rightarrow>
     (let self = self\<lparr>xmin := lo, xmax := hi\<rparr>
      in case widen (vy (obj vertex)) (ymin self) (ymax self) of
        Inl e \<Rightarrow> (Inl e, self)
      | Inr (lo, hi) \<Rightarrow>
     (let self = self\<lparr>ymin := lo, ymax := hi\<rparr>
      in case widen (vz (obj vertex)) (zmin self) (zmax self) of
        Inl e \<Rightarrow> (Inl e, self)
      | Inr (lo, hi) \<Rightarrow> (Inr (), self\<lparr>zmin := lo, zmax := hi\<rparr>))))"

fun extents_loop :: "vref list \<Rightarrow> Model3D \<Rightarrow> (error + unit) \<times> Model3D" where
  "extents_loop [] self = (Inr (), self)"
| "extents_loop (vertex # rest) self =
     (case extents_vertex vertex self of
        (Inl e, self) \<Rightarrow> (Inl e, self)
      | (Inr u, self) \<Rightarrow> extents_loop rest self)"

definition update_extents :: "Triangle \<Rightarrow> Model3D \<Rightarrow> (error + unit) \<times> Model3D" where
  "update_extents triangle self =
     (case tri_vertices triangle of (r0, r1, r2) \<Rightarrow>
      (let v0 = obj r0; v1 = obj r1; v2 = obj r2;
           self = (if xmin self = None
                   then self\<lparr>xmin := Some (vx v0), xmax := Some (vx v0),
                             ymin := Some (vy v0), ymax := Some (vy v0),
                             zmin := Some (vz v0), zmax := Some (vz v0),
                             mx := 0, my := 0, mz := 0\<rparr>
                   else self);
           self = self\<lparr>mx := mx self + (vx v0 + vx v1 + vx v2)\<rparr>;
           self = self\<lparr>my := my self + (vy v0 + vy v1 + vy v2)\<rparr>;
           self = self\<lparr>mz := mz self + (vz v0 + vz v1 + vz v2)\<rparr>
       in extents_loop [r0, r1, r2] self))"

text \<open>
  \<open>add_triangle\<close>. The three vertices go into the pool first; only then is the
  \<open>Triangle\<close> built from the pooled instances, so the state returned with an error of the
  constructor already holds the new pool entries.
\<close>

definition add_triangle ::
    "nat \<Rightarrow> vref \<Rightarrow> vref \<Rightarrow> vref \<Rightarrow> vref option \<Rightarrow> Model3D \<Rightarrow> (error + unit) \<times> Model3D" where
  "add_triangle fresh v1 v2 v3 norm' self =
     (let hash_1 = hash (obj v1);
          self = (if hash_1 \<notin> dom (vertices self)
                  then self\<lparr>vertices := (vertices self)(hash_1 \<mapsto> v1)\<rparr> else self);
          hash_2 = hash (obj v2);
          self = (if hash_2 \<notin> dom (vertices self)
                  then self\<lparr>vertices := (vertices self)(hash_2 \<mapsto> v2)\<rparr> else self);
          hash_3 = hash (obj v3);
          self = (if hash_3 \<notin> dom (vertices self)
                  then self\<lparr>vertices := (vertices self)(hash_3 \<mapsto> v3)\<rparr> else self)
      in case (vertices self hash_1, vertices self hash_2, vertices self hash_3) of
           (Some p1, Some p2, Some p3) \<Rightarrow>
             (case Triangle_init fresh p1 p2 p3 norm' of
                Inl e \<Rightarrow> (Inl e, self)
              | Inr triangle \<Rightarrow>
                  (let n = (case norm' of Some n \<Rightarrow> n | None \<Rightarrow> tri_norm triangle);
                       normal_hash = hash (obj n)
                   in case normals self normal_hash of
                        None \<Rightarrow>
                          (let self = self\<lparr>normals := (normals self)(normal_hash \<mapsto> n)\<rparr>;
                               self = self\<lparr>triangles := triangles self @ [triangle]\<rparr>
                           in update_extents triangle self)
                      | Some pooled \<Rightarrow>
                          (let triangle = triangle\<lparr>tri_norm := pooled\<rparr>;
                               self = self\<lparr>triangles := triangles self @ [triangle]\<rparr>
                           in update_extents triangle self)))
         | _ \<Rightarrow> (Inl KeyError, self))"

text \<open>
  \<open>slice_at_z\<close>: the loop over \<open>self.triangles\<close> with the list \<open>output\<close>; the model
  is threaded through the iterations and returned with the result.
\<close>

fun slice_at_z_loop ::
    "real \<Rightarrow> Triangle list \<Rightarrow> ((real \<times> real) \<times> (real \<times> real)) list \<Rightarrow> Model3D
       \<Rightarrow> (error + ((real \<times> real) \<times> (real \<times> real)) list) \<times> Model3D" where
  "slice_at_z_loop targetz [] output self = (Inr output, self)"
| "slice_at_z_loop targetz (triangle # rest) output self =
     (case find_interpolated_points_at_z triangle targetz of
        Inl e \<Rightarrow> (Inl e, self)
      | Inr points \<Rightarrow>
          slice_at_z_loop targetz rest
            (if length points = 2 then output @ [(points ! 0, points ! 1)] else output) self)"

definition slice_at_z ::
    "real \<Rightarrow> Model3D \<Rightarrow> (error + ((real \<times> real) \<times> (real \<times> real)) list) \<times> Model3D" where
  "slice_at_z targetz self = slice_at_z_loop targetz (triangles self) [] self"

section \<open>The specification's notions\<close>

text \<open>
  The specification's words for z-slicing one triangle. An edge strictly straddles the target
  when one endpoint lies above it and the other below; its point is \<open>A + n (B - A)\<close> in x and
  y with \<open>n = (targetz - A.z) / (B.z - A.z)\<close>. \<open>every_vertex_at\<close> reads "any vertex whose z
  equals the target is appended"; \<open>first_vertex_at\<close> keeps the first of them only.
\<close>

definition straddles :: "real \<Rightarrow> real \<Rightarrow> real \<Rightarrow> bool" where
  "straddles za zb targetz \<longleftrightarrow> (za > targetz \<and> zb < targetz) \<or> (za < targetz \<and> zb > targetz)"

definition interpolated :: "Vector3 \<Rightarrow> Vector3 \<Rightarrow> real \<Rightarrow> real \<times> real" where
  "interpolated A B targetz =
     (let n = (targetz - vz A) / (vz B - vz A)
      in (vx A + n * (vx B - vx A), vy A + n * (vy B - vy A)))"

definition edge_points :: "Vector3 \<Rightarrow> Vector3 \<Rightarrow> real \<Rightarrow> (real \<times> real) list" where
  "edge_points A B targetz =
     (if straddles (vz A) (vz B) targetz then [interpolated A B targetz] else [])"

definition every_vertex_at :: "Vector3 list \<Rightarrow> real \<Rightarrow> (real \<times> real) list" where
  "every_vertex_at vs targetz = map (\<lambda>v. (vx v, vy v)) (filter (\<lambda>v. vz v = targetz) vs)"

definition first_vertex_at :: "Vector3 list \<Rightarrow> real \<Rightarrow> (real \<times> real) list" where
  "first_vertex_at vs targetz = take 1 (every_vertex_at vs targetz)"

text \<open>
  Reading a printed number back: the value of a digit character and of a string of digits.
\<close>

definition digit_value :: "char \<Rightarrow> nat" where
  "digit_value c = of_char c - 48"

definition decimal_value :: "string \<Rightarrow> nat" where
  "decimal_value s = foldl (\<lambda>a c. 10 * a + digit_value c) 0 s"

text \<open>
  The value that \<open>Vector3(a, b, c)\<close> builds from three numbers, none of them the negative
  zero, and the allocated object with identity \<open>i\<close> that holds it.
\<close>

abbreviation (input) vec :: "real \<Rightarrow> real \<Rightarrow> real \<Rightarrow> Vector3" where
  "vec a b c \<equiv> Vector3_init (Num a) (Num b) (Num c)"

abbreviation (input) pt :: "nat \<Rightarrow> real \<Rightarrow> real \<Rightarrow> real \<Rightarrow> vref" where
  "pt i a b c \<equiv> Ref i (vec a b c)"

text \<open>
  Notions for the pools. \<open>offered v self\<close> is the model after the
  statement \<open>if v.hash not in self.vertices: self.vertices[v.hash] = v\<close>. A pool is keyed
  when every entry sits under its own content key; an instance is in a pool when the pool maps
  its key to that very instance (identity and contents). A model is canonical when both pools
  are keyed and every vertex and every normal that a stored triangle refers to is in its pool.
\<close>

definition offered :: "vref \<Rightarrow> Model3D \<Rightarrow> Model3D" where
  "offered v self =
     (if hash (obj v) \<notin> dom (vertices self)
      then self\<lparr>vertices := (vertices self)(hash (obj v) \<mapsto> v)\<rparr> else self)"

definition keyed :: "(string \<rightharpoonup> vref) \<Rightarrow> bool" where
  "keyed pool \<longleftrightarrow> (\<forall>h v. pool h = Some v \<longrightarrow> hash (obj v) = h)"

definition in_pool :: "(string \<rightharpoonup> vref) \<Rightarrow> vref \<Rightarrow> bool" where
  "in_pool pool v \<longleftrightarrow> pool (hash (obj v)) = Some v"

definition canonical :: "Model3D \<Rightarrow> bool" where
  "canonical self \<longleftrightarrow>
     keyed (vertices self) \<and> keyed (normals self) \<and>
     (\<forall>t \<in> set (triangles self).
        in_pool (vertices self) (fst (tri_vertices t)) \<and>
        in_pool (vertices self) (fst (snd (tri_vertices t))) \<and>
        in_pool (vertices self) (snd (snd (tri_vertices t))) \<and>
        in_pool (normals self) (tri_norm t))"

definition extents_defined :: "Model3D \<Rightarrow> bool" where
  "extents_defined self \<longleftrightarrow>
     xmin self \<noteq> None \<and> xmax self \<noteq> None \<and> ymin self \<noteq> None \<and> ymax self \<noteq> None \<and>
     zmin self \<noteq> None \<and> zmax self \<noteq> None"

text \<open>
  Models used as examples: the model that \<open>Model3D.__init__\<close> builds, the triangle
  (0,0,0), (1,0,0), (0,1,0) with the normal (0,-0,1) that its constructor computes (the
  middle component is 0*(-1) - 1*0, the negative zero minus the positive one), the model
  after that triangle was added once and twice, and the model holding the triangle
  (0,0,0), (1,0,0), (0,1,1).
\<close>

abbreviation (input) empty_model :: Model3D where
  "empty_model \<equiv>
     \<lparr>triangles = [], vertices = Map.empty, normals = Map.empty, name = [],
      xmin = None, xmax = None, ymin = None, ymax = None, zmin = None, zmax = None,
      mx = 0, my = 0, mz = 0\<rparr>"

abbreviation (input) unit_normal :: vref where
  "unit_normal \<equiv> Ref 14 (Vector3_init (Num 0) NegZero (Num 1))"

abbreviation (input) unit_triangle :: Triangle where
  "unit_triangle \<equiv>
     \<lparr>tri_vertices = (pt 11 0 0 0, pt 12 1 0 0, pt 13 0 1 0), tri_norm = unit_normal\<rparr>"

abbreviation (input) unit_pool :: "string \<rightharpoonup> vref" where
  "unit_pool \<equiv>
     [hash (vec 0 0 0) \<mapsto> pt 11 0 0 0, hash (vec 1 0 0) \<mapsto> pt 12 1 0 0,
      hash (vec 0 1 0) \<mapsto> pt 13 0 1 0]"

abbreviation (input) model_once :: Model3D where
  "model_once \<equiv>
     \<lparr>triangles = [unit_triangle], vertices = unit_pool,
      normals = [hash (obj unit_normal) \<mapsto> unit_normal], name = [],
      xmin = Some 0, xmax = Some 1, ymin = Some 0, ymax = Some 1, zmin = Some 0, zmax = Some 0,
      mx = 1, my = 1, mz = 0\<rparr>"

abbreviation (input) model_twice :: Model3D where
  "model_twice \<equiv>
     \<lparr>triangles = [unit_triangle, unit_triangle], vertices = unit_pool,
      normals = [hash (obj unit_normal) \<mapsto> unit_normal], name = [],
      xmin = Some 0, xmax = Some 1, ymin = Some 0, ymax = Some 1, zmin = Some 0, zmax = Some 0,
      mx = 2, my = 2, mz = 0\<rparr>"

abbreviation (input) sloped_triangle :: Triangle where
  "sloped_triangle \<equiv>
     \<lparr>tri_vertices = (pt 11 0 0 0, pt 12 1 0 0, pt 13 0 1 1), tri_norm = pt 14 0 (- 1) 1\<rparr>"

abbreviation (input) sloped_model :: Model3D where
  "sloped_model \<equiv>
     \<lparr>triangles = [sloped_triangle],
      vertices = [hash (vec 0 0 0) \<mapsto> pt 11 0 0 0, hash (vec 1 0 0) \<mapsto> pt 12 1 0 0,
                  hash (vec 0 1 1) \<mapsto> pt 13 0 1 1],
      normals = [hash (vec 0 (- 1) 1) \<mapsto> pt 14 0 (- 1) 1], name = [],
      xmin = Some 0, xmax = Some 1, ymin = Some 0, ymax = Some 1, zmin = Some 0, zmax = Some 1,
      mx = 1, my = 1, mz = 1\<rparr>"

section \<open>Properties\<close>

subsection \<open>Basic facts\<close>

lemma Vector3_init_sel [simp]:
  "fx (Vector3_init a b c) = a" "fy (Vector3_init a b c) = b" "fz (Vector3_init a b c) = c"
  "vx (Vector3_init a b c) = val a" "vy (Vector3_init a b c) = val b"
  "vz (Vector3_init a b c) = val c"
  "hash (Vector3_init a b c) = md5_hexdigest (key_string a b c)"
  by (simp_all add: Vector3_init_def vx_def vy_def vz_def)

lemma val_signed [simp]: "val (signed negative r) = r"
  by (simp add: signed_def)

lemma val_arith [simp]:
  "val (fadd a b) = val a + val b" "val (fsub a b) = val a - val b"
  "val (fmul a b) = val a * val b"
  by (simp_all add: fadd_def fsub_def fmul_def)

lemmas geometry_defs =
  Triangle_init_def Vector3_eq_def DIFFERENCE_LIMIT_def contains_def Edge_init_def Let_def
  Vector3_sub_def cross_def Vector3_length_def Normal_init_def fsub_def fmul_def signed_def

lemma Triangle_init_vertices:
  "Triangle_init fresh p1 p2 p3 norm' = Inr self \<Longrightarrow> tri_vertices self = (p1, p2, p3)"
  by (auto simp: Triangle_init_def Let_def split: if_splits option.splits sum.splits)

lemma findInterpolatedPoint_straddle:
  "(a2 > t \<and> b2 < t) \<or> (a2 < t \<and> b2 > t) \<Longrightarrow>
   findInterpolatedPoint (a0, a1, a2) (b0, b1, b2) t =
     Inr (a0 + (t - a2) / (b2 - a2) * (b0 - a0), a1 + (t - a2) / (b2 - a2) * (b1 - a1))"
  by (auto simp: findInterpolatedPoint_def Let_def)

lemma points_at_z_policy:
  "find_interpolated_points_at_z self targetz =
     Inr (edge_points (obj (fst (tri_vertices self))) (obj (fst (snd (tri_vertices self)))) targetz @
          edge_points (obj (fst (tri_vertices self))) (obj (snd (snd (tri_vertices self)))) targetz @
          edge_points (obj (fst (snd (tri_vertices self)))) (obj (snd (snd (tri_vertices self)))) targetz @
          first_vertex_at [obj (fst (tri_vertices self)), obj (fst (snd (tri_vertices self))),
                           obj (snd (snd (tri_vertices self)))] targetz)"
proof -
  obtain r0 r1 r2 where v: "tri_vertices self = (r0, r1, r2)"
    by (cases "tri_vertices self") auto
  show ?thesis
    unfolding find_interpolated_points_at_z_def v
    by (simp add: Let_def edge_points_def straddles_def interpolated_def first_vertex_at_def
        every_vertex_at_def findInterpolatedPoint_straddle)
qed

subsection \<open>Keys\<close>

text \<open>
  The \<open>%f\<close> conversion on sample values: whole numbers, a negative value, a tie that goes
  to the even neighbour (1/128 = 0.0078125), a tie that goes up (3/128 = 0.0234375) and a
  negative value that prints as minus zero.
\<close>

lemmas format_defs =
  key_string_def format_f_def round_half_even_def Let_def decimal.simps digit_def

lemma key_string_origin: "key_string (Num 0) (Num 0) (Num 0) = ''(0.000000, 0.000000, 0.000000)''"
  by (simp add: format_defs)

lemma key_string_unit_x: "key_string (Num 1) (Num 0) (Num 0) = ''(1.000000, 0.000000, 0.000000)''"
  by (simp add: format_defs)

lemma key_string_unit_y: "key_string (Num 0) (Num 1) (Num 0) = ''(0.000000, 1.000000, 0.000000)''"
  by (simp add: format_defs)

lemma key_string_sloped: "key_string (Num 0) (Num 1) (Num 1) = ''(0.000000, 1.000000, 1.000000)''"
  by (simp add: format_defs)

lemma key_string_quarter: "key_string (Num (1 / 4)) (Num 0) (Num 0) = ''(0.250000, 0.000000, 0.000000)''"
  by (simp add: format_defs)

lemma key_string_quarter_up: "key_string (Num (1 / 4 + 1 / 2 ^ 20)) (Num 0) (Num 0) = ''(0.250001, 0.000000, 0.000000)''"
  by (simp add: format_defs)

lemma key_string_tie: "key_string (Num (1 / 128)) (Num (3 / 128)) (Num (- 1 / 10000000)) = ''(0.007812, 0.023438, -0.000000)''"
  by (simp add: format_defs)

lemma key_string_big: "key_string (Num 1234.5) (Num (-17)) (Num 100) = ''(1234.500000, -17.000000, 100.000000)''"
  by (simp add: format_defs)

text \<open>
  The digest on the first two strings of the RFC's test suite, and on the key strings of the
  points used below.
\<close>

lemma replicate_numeral: "replicate (numeral k) x = x # replicate (pred_numeral k) x"
  by (simp add: numeral_eq_Suc)

lemmas md5_defs =
  md5_hexdigest_def md5_pad_def le_bytes_def replicate_numeral upt_rec md5_blocks.simps
  md5_block_def md5_rounds.simps md5_step.simps md5_K_def md5_s_def add32_def not32_def
  rotl32_def hex_byte_def

lemma md5_empty: "md5_hexdigest [] = ''d41d8cd98f00b204e9800998ecf8427e''"
  by (simp add: md5_defs)

lemma md5_abc: "md5_hexdigest ''abc'' = ''900150983cd24fb0d6963f7d28e17f72''"
  by (simp add: md5_defs)

lemma md5_origin:
  "md5_hexdigest ''(0.000000, 0.000000, 0.000000)'' = ''b62a655c72c039834a29c24f48582d18''"
  by (simp add: md5_defs)

lemma md5_unit_x:
  "md5_hexdigest ''(1.000000, 0.000000, 0.000000)'' = ''ede65859d8cb98b3b5e1e34266219eba''"
  by (simp add: md5_defs)

lemma md5_unit_y:
  "md5_hexdigest ''(0.000000, 1.000000, 0.000000)'' = ''df1a732617a5548efc8ab46dad9aac95''"
  by (simp add: md5_defs)

lemma md5_sloped:
  "md5_hexdigest ''(0.000000, 1.000000, 1.000000)'' = ''75792ad709f5e7405f67748a5f7c459e''"
  by (simp add: md5_defs)

lemma md5_quarter:
  "md5_hexdigest ''(0.250000, 0.000000, 0.000000)'' = ''b6d0f6147e40d590a484a76091f08a83''"
  by (simp add: md5_defs)

lemma md5_quarter_up:
  "md5_hexdigest ''(0.250001, 0.000000, 0.000000)'' = ''aa4eb852e73953484d07d6e11d36525f''"
  by (simp add: md5_defs)

lemmas key_evals =
  key_string_origin key_string_unit_x key_string_unit_y md5_origin md5_unit_x md5_unit_y

text \<open>
  Reading the digits back: \<open>decimal\<close> and the six digits after the point determine the
  number of millionths, and the minus sign determines the sign bit.
\<close>

lemma digit_value_digit: "d < 10 \<Longrightarrow> digit_value (digit d) = d"
proof -
  have "\<forall>d \<in> set [0..<10]. digit_value (digit d) = d"
    by (simp add: upt_rec digit_def digit_value_def)
  then show "d < 10 \<Longrightarrow> digit_value (digit d) = d"
    by simp
qed

lemma digit_eq_iff: "d < 10 \<Longrightarrow> e < 10 \<Longrightarrow> digit d = digit e \<longleftrightarrow> d = e"
  by (metis digit_value_digit)

lemma digit_not_minus: "d < 10 \<Longrightarrow> digit d \<noteq> CHR ''-''"
proof -
  have "\<forall>d \<in> set [0..<10]. digit d \<noteq> CHR ''-''"
    by (simp add: upt_rec digit_def)
  then show "d < 10 \<Longrightarrow> digit d \<noteq> CHR ''-''"
    by simp
qed

lemma decimal_value_snoc: "decimal_value (s @ [c]) = 10 * decimal_value s + digit_value c"
  by (simp add: decimal_value_def)

lemma decimal_value_decimal: "decimal_value (decimal n) = n"
proof (induction n rule: decimal.induct)
  case (1 n)
  show ?case
  proof (cases "n < 10")
    case True
    then show ?thesis
      by (subst decimal.simps) (simp add: decimal_value_def digit_value_digit)
  next
    case False
    then have "decimal_value (decimal (n div 10)) = n div 10"
      using "1.IH" by simp
    with False show ?thesis
      by (subst decimal.simps) (simp add: decimal_value_snoc digit_value_digit)
  qed
qed

lemma decimal_no_minus: "CHR ''-'' \<notin> set (decimal n)"
proof (induction n rule: decimal.induct)
  case (1 n)
  show ?case
  proof (cases "n < 10")
    case True
    then show ?thesis
      by (subst decimal.simps) (simp add: digit_not_minus [symmetric])
  next
    case False
    then have "CHR ''-'' \<notin> set (decimal (n div 10))"
      using "1.IH" by simp
    with False show ?thesis
      using digit_not_minus [of "n mod 10"]
      by (subst decimal.simps) auto
  qed
qed

lemma decimal_eq_iff: "decimal m = decimal n \<longleftrightarrow> m = n"
  by (metis decimal_value_decimal)

lemma six_digits:
  fixes m :: nat
  shows "m mod 1000000 =
           100000 * (m div 100000 mod 10) + 10000 * (m div 10000 mod 10) +
           1000 * (m div 1000 mod 10) + 100 * (m div 100 mod 10) + 10 * (m div 10 mod 10) + m mod 10"
proof -
  have a: "m mod 100 = 10 * (m div 10 mod 10) + m mod 10"
    using mod_mult2_eq [of m 10 10] by simp
  have b: "m mod 1000 = 100 * (m div 100 mod 10) + m mod 100"
    using mod_mult2_eq [of m 100 10] by simp
  have c: "m mod 10000 = 1000 * (m div 1000 mod 10) + m mod 1000"
    using mod_mult2_eq [of m 1000 10] by simp
  have d: "m mod 100000 = 10000 * (m div 10000 mod 10) + m mod 10000"
    using mod_mult2_eq [of m 10000 10] by simp
  have e: "m mod 1000000 = 100000 * (m div 100000 mod 10) + m mod 100000"
    using mod_mult2_eq [of m 100000 10] by simp
  show ?thesis
    using a b c d e by simp
qed

lemma format_f_eq_iff:
  "format_f a = format_f b \<longleftrightarrow>
     sign_bit a = sign_bit b \<and>
     round_half_even (\<bar>val a\<bar> * 1000000) = round_half_even (\<bar>val b\<bar> * 1000000)"
proof
  assume "sign_bit a = sign_bit b \<and>
     round_half_even (\<bar>val a\<bar> * 1000000) = round_half_even (\<bar>val b\<bar> * 1000000)"
  then show "format_f a = format_f b"
    by (simp add: format_f_def Let_def)
next
  let ?m = "round_half_even (\<bar>val a\<bar> * 1000000)"
  let ?n = "round_half_even (\<bar>val b\<bar> * 1000000)"
  let ?tail = "\<lambda>k::nat. [CHR ''.'', digit (k div 100000 mod 10), digit (k div 10000 mod 10),
     digit (k div 1000 mod 10), digit (k div 100 mod 10), digit (k div 10 mod 10), digit (k mod 10)]"
  let ?sign = "\<lambda>v. if sign_bit v then ''-'' else []"
  assume "format_f a = format_f b"
  then have "(?sign a @ decimal (?m div 1000000)) @ ?tail ?m =
             (?sign b @ decimal (?n div 1000000)) @ ?tail ?n"
    by (simp add: format_f_def Let_def)
  moreover have "length (?tail ?m) = length (?tail ?n)"
    by simp
  ultimately have "?sign a @ decimal (?m div 1000000) = ?sign b @ decimal (?n div 1000000) \<and>
                   ?tail ?m = ?tail ?n"
    using append_eq_append_conv by blast
  then have front: "?sign a @ decimal (?m div 1000000) = ?sign b @ decimal (?n div 1000000)"
    and tails: "?tail ?m = ?tail ?n"
    by blast+
  from tails have "?m mod 1000000 = ?n mod 1000000"
    by (simp add: six_digits [of ?m] six_digits [of ?n] digit_eq_iff)
  moreover have s: "sign_bit a = sign_bit b"
  proof (rule ccontr)
    assume "sign_bit a \<noteq> sign_bit b"
    then consider "sign_bit a" "\<not> sign_bit b" | "\<not> sign_bit a" "sign_bit b"
      by blast
    then show False
    proof cases
      case 1
      with front have "CHR ''-'' # decimal (?m div 1000000) = decimal (?n div 1000000)"
        by simp
      then have "CHR ''-'' \<in> set (decimal (?n div 1000000))"
        by (metis list.set_intros(1))
      then show False
        by (simp add: decimal_no_minus)
    next
      case 2
      with front have "decimal (?m div 1000000) = CHR ''-'' # decimal (?n div 1000000)"
        by simp
      then have "CHR ''-'' \<in> set (decimal (?m div 1000000))"
        by (metis list.set_intros(1))
      then show False
        by (simp add: decimal_no_minus)
    qed
  qed
  moreover from front s have "?m div 1000000 = ?n div 1000000"
    by (simp add: decimal_eq_iff)
  ultimately show "sign_bit a = sign_bit b \<and> ?m = ?n"
    by (metis div_mult_mod_eq)
qed

text \<open>
  The negative zero prints with its sign, so \<open>Vector3(-0.0, 0, 0)\<close> and
  \<open>Vector3(0.0, 0, 0)\<close> have different keys.
\<close>

lemma key_string_negative_zero:
  "key_string NegZero (Num 0) (Num 0) = ''(-0.000000, 0.000000, 0.000000)''"
  by (simp add: format_defs)

lemma md5_negative_zero:
  "md5_hexdigest ''(-0.000000, 0.000000, 0.000000)'' = ''bdc3a568276d760e8526128b4060ef28''"
  by (simp add: md5_defs)

lemma negative_zero_key:
  "hash (Vector3_init NegZero (Num 0) (Num 0)) \<noteq> hash (Vector3_init (Num 0) (Num 0) (Num 0))"
  unfolding Vector3_init_sel key_string_negative_zero key_string_origin md5_negative_zero md5_origin
  by simp

text \<open>
  C6, as the code has it. The key of a point is a function of its coordinates alone; two points
  whose coordinates print alike under \<open>%f\<close> have the same key; and two coordinates print
  alike exactly when they have the same sign bit and their magnitudes round, ties to even, to
  the same number of millionths.
\<close>

theorem key_of_formatted_coordinates:
  "hash (Vector3_init a b c) = hash (Vector3_init a b c) \<and>
   (format_f a = format_f a' \<and> format_f b = format_f b' \<and> format_f c = format_f c' \<longrightarrow>
      hash (Vector3_init a b c) = hash (Vector3_init a' b' c')) \<and>
   (format_f a = format_f a' \<longleftrightarrow>
      sign_bit a = sign_bit a' \<and>
      round_half_even (\<bar>val a\<bar> * 1000000) = round_half_even (\<bar>val a'\<bar> * 1000000))"
proof (intro conjI impI)
  show "hash (Vector3_init a b c) = hash (Vector3_init a b c)"
    by (rule refl)
next
  assume "format_f a = format_f a' \<and> format_f b = format_f b' \<and> format_f c = format_f c'"
  then show "hash (Vector3_init a b c) = hash (Vector3_init a' b' c')"
    by (simp add: key_string_def)
next
  show "format_f a = format_f a' \<longleftrightarrow>
      sign_bit a = sign_bit a' \<and>
      round_half_even (\<bar>val a\<bar> * 1000000) = round_half_even (\<bar>val a'\<bar> * 1000000)"
    by (rule format_f_eq_iff)
qed

text \<open>
  The floats 1/4 and \<open>1/4 + 1/2^22\<close> both have a clear sign bit and both round to 250000
  millionths, so they print alike, and the points (1/4, 0, -0) and (\<open>1/4 + 1/2^22\<close>, 0, -0)
  have the same key.
\<close>

theorem key_of_formatted_coordinates_witness:
  "sign_bit (Num (1 / 4)) = sign_bit (Num (1 / 4 + 1 / 2 ^ 22)) \<and>
   round_half_even (\<bar>val (Num (1 / 4))\<bar> * 1000000) =
     round_half_even (\<bar>val (Num (1 / 4 + 1 / 2 ^ 22))\<bar> * 1000000) \<and>
   format_f (Num (1 / 4)) = format_f (Num (1 / 4 + 1 / 2 ^ 22)) \<and>
   format_f (Num 0) = format_f (Num 0) \<and> format_f NegZero = format_f NegZero \<and>
   hash (Vector3_init (Num (1 / 4)) (Num 0) NegZero) =
     hash (Vector3_init (Num (1 / 4 + 1 / 2 ^ 22)) (Num 0) NegZero)"
proof -
  have s: "sign_bit (Num (1 / 4)) = sign_bit (Num (1 / 4 + 1 / 2 ^ 22))"
    by simp
  have r: "round_half_even (\<bar>val (Num (1 / 4))\<bar> * 1000000) =
     round_half_even (\<bar>val (Num (1 / 4 + 1 / 2 ^ 22))\<bar> * 1000000)"
    by (simp add: round_half_even_def Let_def)
  note k = key_of_formatted_coordinates
    [where a = "Num (1 / 4)" and a' = "Num (1 / 4 + 1 / 2 ^ 22)" and b = "Num 0" and b' = "Num 0"
       and c = NegZero and c' = NegZero]
  from k s r have f: "format_f (Num (1 / 4)) = format_f (Num (1 / 4 + 1 / 2 ^ 22))"
    by blast
  with k have "hash (Vector3_init (Num (1 / 4)) (Num 0) NegZero) =
     hash (Vector3_init (Num (1 / 4 + 1 / 2 ^ 22)) (Num 0) NegZero)"
    by blast
  with s r f show ?thesis
    by blast
qed

text \<open>
  C6 as the specification words it ("any two points differing only past the 6th decimal digit
  share a key") fails, because \<open>%f\<close> rounds and does not truncate. The floats 1/4 and
  \<open>1/4 + 1/2^20\<close> = 0.25000095... agree in their first six decimals and lie less than a
  millionth apart, yet they print as 0.250000 and 0.250001 and their digests differ.
\<close>

theorem key_past_sixth_decimal_counterexample:
  "\<lfloor>(1 / 4 :: real) * 1000000\<rfloor> = \<lfloor>(1 / 4 + 1 / 2 ^ 20 :: real) * 1000000\<rfloor> \<and>
   \<bar>(1 / 4 + 1 / 2 ^ 20 :: real) - 1 / 4\<bar> < 1 / 1000000 \<and>
   hash (vec (1 / 4) 0 0) \<noteq> hash (vec (1 / 4 + 1 / 2 ^ 20) 0 0)"
  unfolding Vector3_init_sel key_string_quarter key_string_quarter_up md5_quarter md5_quarter_up
  by simp

subsection \<open>Slicing one triangle at a z value\<close>

text \<open>
  C1, as the code has it. For every triangle that the constructor accepts and every target,
  \<open>find_interpolated_points_at_z\<close> returns, in this order, the interpolated point of edge
  (0,1), of edge (0,2) and of edge (1,2), each present exactly when the edge strictly
  straddles the target, and then the (x, y) of the first vertex, in the order 0, 1, 2, whose
  z equals the target, if there is one. Nothing else is returned.
\<close>

theorem points_at_z_of_triangle:
  assumes "Triangle_init fresh p1 p2 p3 norm' = Inr self"
  shows "find_interpolated_points_at_z self targetz =
           Inr (edge_points (obj p1) (obj p2) targetz @
                edge_points (obj p1) (obj p3) targetz @
                edge_points (obj p2) (obj p3) targetz @
                first_vertex_at [obj p1, obj p2, obj p3] targetz)"
  using Triangle_init_vertices [OF assms] by (simp add: points_at_z_policy)

text \<open>
  The triangle (0,0,0), (2,0,0), (0,2,2) cut at z = 1: edges (0,2) and (1,2) straddle, no
  vertex lies at the target, and the two points are (0,1) and (1,1).
\<close>

theorem points_at_z_of_triangle_witness:
  "Triangle_init 14 (pt 11 0 0 0) (pt 12 2 0 0) (pt 13 0 2 2) None =
     Inr \<lparr>tri_vertices = (pt 11 0 0 0, pt 12 2 0 0, pt 13 0 2 2), tri_norm = pt 14 0 (- 4) 4\<rparr> \<and>
   find_interpolated_points_at_z
     \<lparr>tri_vertices = (pt 11 0 0 0, pt 12 2 0 0, pt 13 0 2 2), tri_norm = pt 14 0 (- 4) 4\<rparr> 1 =
     Inr [(0, 1), (1, 1)]"
proof -
  have built: "Triangle_init 14 (pt 11 0 0 0) (pt 12 2 0 0) (pt 13 0 2 2) None =
     Inr \<lparr>tri_vertices = (pt 11 0 0 0, pt 12 2 0 0, pt 13 0 2 2), tri_norm = pt 14 0 (- 4) 4\<rparr>"
    by (simp add: geometry_defs)
  show ?thesis
    using built points_at_z_of_triangle [OF built, of 1]
    by (simp add: edge_points_def straddles_def interpolated_def first_vertex_at_def
        every_vertex_at_def)
qed

text \<open>
  C1 as the specification words it ("if any single vertex's z exactly equals targetz, that
  vertex's (x,y) is appended") fails when two vertices lie at the target. The triangle
  (0,0,1), (1,0,1), (0,1,0) cut at z = 1 has vertices 0 and 1 at the target; the method
  returns vertex 0 only.
\<close>

theorem every_vertex_at_counterexample:
  "Triangle_init 14 (pt 11 0 0 1) (pt 12 1 0 1) (pt 13 0 1 0) None =
     Inr \<lparr>tri_vertices = (pt 11 0 0 1, pt 12 1 0 1, pt 13 0 1 0), tri_norm = Ref 14 (Vector3_init NegZero (Num 1) (Num 1))\<rparr> \<and>
   find_interpolated_points_at_z
     \<lparr>tri_vertices = (pt 11 0 0 1, pt 12 1 0 1, pt 13 0 1 0), tri_norm = Ref 14 (Vector3_init NegZero (Num 1) (Num 1))\<rparr> 1 =
     Inr [(0, 0)] \<and>
   edge_points (vec 0 0 1) (vec 1 0 1) 1 @
   edge_points (vec 0 0 1) (vec 0 1 0) 1 @
   edge_points (vec 1 0 1) (vec 0 1 0) 1 @
   every_vertex_at [vec 0 0 1, vec 1 0 1, vec 0 1 0] 1 =
     [(0, 0), (1, 0)]"
  by (simp add: geometry_defs points_at_z_policy edge_points_def straddles_def
      first_vertex_at_def every_vertex_at_def)

text \<open>
  C9. Under the strict straddle test that guards each call, the two z values differ and
  \<open>findInterpolatedPoint\<close> returns a point; and \<open>find_interpolated_points_at_z\<close> returns
  a list of points for every triangle and every target, never a \<open>ZeroDivisionError\<close>.
\<close>

theorem z_slicing_never_divides_by_zero:
  "(((a2 > targetz \<and> b2 < targetz) \<or> (a2 < targetz \<and> b2 > targetz)) \<longrightarrow>
      b2 - a2 \<noteq> 0 \<and> (\<exists>point. findInterpolatedPoint (a0, a1, a2) (b0, b1, b2) targetz = Inr point)) \<and>
   (\<exists>points. find_interpolated_points_at_z self targetz = Inr points)"
  by (auto simp: findInterpolatedPoint_straddle points_at_z_policy)

theorem z_slicing_never_divides_by_zero_witness:
  "((0::real) < 1 \<and> (2::real) > 1) \<and> (2::real) - 0 \<noteq> 0 \<and>
   (\<exists>point. findInterpolatedPoint (0, 0, 0) (0, 2, 2) 1 = Inr point) \<and>
   (\<exists>points. find_interpolated_points_at_z
       \<lparr>tri_vertices = (pt 11 0 0 0, pt 12 2 0 0, pt 13 0 2 2), tri_norm = pt 14 0 (- 4) 4\<rparr> 1 = Inr points)"
  using z_slicing_never_divides_by_zero
    [where ?a2.0 = 0 and ?b2.0 = 2 and targetz = 1 and ?a0.0 = 0 and ?a1.0 = 0
       and ?b0.0 = 0 and ?b1.0 = 2
       and self = "\<lparr>tri_vertices = (pt 11 0 0 0, pt 12 2 0 0, pt 13 0 2 2), tri_norm = pt 14 0 (- 4) 4\<rparr>"]
  by simp

subsection \<open>The constructor's degeneracy checks\<close>

text \<open>
  C2. The constructor compares \<open>p1\<close> with \<open>p2\<close> and \<open>p1\<close> with \<open>p3\<close>, never \<open>p2\<close>
  with \<open>p3\<close>. With (0,0,0), (2,0,0), (2,0,0) and a normal supplied, the last two vertices
  are equal by the tolerance test, the containment test does not fire (the third point is
  farther than 1 from the first), and a triangle is built.
\<close>

theorem Triangle_init_coincident_p2_p3:
  "Vector3_eq (obj (pt 12 2 0 0)) (obj (pt 13 2 0 0)) \<and>
   Normal_init (Num 0) (Num 0) (Num 1) = Inr (vec 0 0 1) \<and>
   Triangle_init 15 (pt 11 0 0 0) (pt 12 2 0 0) (pt 13 2 0 0) (Some (pt 14 0 0 1)) =
     Inr \<lparr>tri_vertices = (pt 11 0 0 0, pt 12 2 0 0, pt 13 2 0 0), tri_norm = pt 14 0 0 1\<rparr>"
  by (simp add: geometry_defs)

text \<open>
  C3. \<open>Edge.contains\<close> bounds the distance from the edge's start to the point by 1, not the
  point's position along the edge. The midpoint (2,0,0) of the edge from (0,0,0) to (4,0,0) is
  not contained, and neither is (2,0,0) for the edge from (0,0,0) to (1,0,0); with a normal
  supplied the constructor accepts both triples.
\<close>

theorem Triangle_init_collinear_accepted:
  "\<not> contains (Edge_init (pt 11 0 0 0) (pt 12 4 0 0)) (pt 13 2 0 0) \<and>
   Triangle_init 15 (pt 11 0 0 0) (pt 12 4 0 0) (pt 13 2 0 0) (Some (pt 14 0 0 1)) =
     Inr \<lparr>tri_vertices = (pt 11 0 0 0, pt 12 4 0 0, pt 13 2 0 0), tri_norm = pt 14 0 0 1\<rparr> \<and>
   \<not> contains (Edge_init (pt 11 0 0 0) (pt 12 1 0 0)) (pt 13 2 0 0) \<and>
   Triangle_init 15 (pt 11 0 0 0) (pt 12 1 0 0) (pt 13 2 0 0) (Some (pt 14 0 0 1)) =
     Inr \<lparr>tri_vertices = (pt 11 0 0 0, pt 12 1 0 0, pt 13 2 0 0), tri_norm = pt 14 0 0 1\<rparr>"
  by (simp add: geometry_defs)

subsection \<open>Adding a triangle\<close>

lemma add_triangle_offered:
  "add_triangle fresh v1 v2 v3 norm' self =
     (let self = offered v3 (offered v2 (offered v1 self))
      in case (vertices self (hash (obj v1)), vertices self (hash (obj v2)), vertices self (hash (obj v3))) of
           (Some p1, Some p2, Some p3) \<Rightarrow>
             (case Triangle_init fresh p1 p2 p3 norm' of
                Inl e \<Rightarrow> (Inl e, self)
              | Inr triangle \<Rightarrow>
                  (let n = (case norm' of Some n \<Rightarrow> n | None \<Rightarrow> tri_norm triangle);
                       normal_hash = hash (obj n)
                   in case normals self normal_hash of
                        None \<Rightarrow>
                          (let self = self\<lparr>normals := (normals self)(normal_hash \<mapsto> n)\<rparr>;
                               self = self\<lparr>triangles := triangles self @ [triangle]\<rparr>
                           in update_extents triangle self)
                      | Some q \<Rightarrow>
                          (let triangle = triangle\<lparr>tri_norm := q\<rparr>;
                               self = self\<lparr>triangles := triangles self @ [triangle]\<rparr>
                           in update_extents triangle self)))
         | _ \<Rightarrow> (Inl KeyError, self))"
  unfolding add_triangle_def offered_def Let_def by (rule refl)

lemma offered_fields [simp]:
  "triangles (offered v self) = triangles self"
  "normals (offered v self) = normals self"
  "xmin (offered v self) = xmin self" "xmax (offered v self) = xmax self"
  "ymin (offered v self) = ymin self" "ymax (offered v self) = ymax self"
  "zmin (offered v self) = zmin self" "zmax (offered v self) = zmax self"
  "mx (offered v self) = mx self" "my (offered v self) = my self" "mz (offered v self) = mz self"
  "name (offered v self) = name self"
  by (simp_all add: offered_def)

lemma offered_keeps: "vertices self h = Some v \<Longrightarrow> vertices (offered w self) h = Some v"
  by (auto simp: offered_def)

lemma offered_dom: "dom (vertices (offered v self)) = insert (hash (obj v)) (dom (vertices self))"
  by (auto simp: offered_def)

lemma offered_keyed: "keyed (vertices self) \<Longrightarrow> keyed (vertices (offered v self))"
  by (auto simp: offered_def keyed_def)

lemma offered_absorb: "hash (obj v) \<in> dom (vertices self) \<Longrightarrow> offered v self = self"
  by (simp add: offered_def)

lemma widen_error: "widen c lo hi = Inl e \<Longrightarrow> e = TypeError"
  by (auto simp: widen_def split: option.splits if_splits)

lemma extents_vertex_error: "extents_vertex v self = (Inl e, self') \<Longrightarrow> e = TypeError"
  by (auto simp: extents_vertex_def Let_def split: sum.splits prod.splits dest: widen_error)

lemma extents_vertex_frame:
  "extents_vertex v self = (r, self') \<Longrightarrow>
   triangles self' = triangles self \<and> vertices self' = vertices self \<and> normals self' = normals self"
  by (auto simp: extents_vertex_def Let_def split: sum.splits prod.splits)

lemma extents_loop_error: "extents_loop vs self = (Inl e, self') \<Longrightarrow> e = TypeError"
proof (induction vs arbitrary: self)
  case Nil
  then show ?case by simp
next
  case (Cons v vs)
  then show ?case
    by (auto split: prod.splits sum.splits dest: extents_vertex_error)
qed

lemma extents_loop_frame:
  "extents_loop vs self = (r, self') \<Longrightarrow>
   triangles self' = triangles self \<and> vertices self' = vertices self \<and> normals self' = normals self"
proof (induction vs arbitrary: self)
  case Nil
  then show ?case by simp
next
  case (Cons v vs)
  then show ?case
    by (fastforce split: prod.splits sum.splits dest: extents_vertex_frame)
qed

lemma update_extents_error: "update_extents t self = (Inl e, self') \<Longrightarrow> e = TypeError"
  by (cases "tri_vertices t")
     (auto simp: update_extents_def Let_def simp del: extents_loop.simps dest: extents_loop_error)

lemma update_extents_frame:
  "update_extents t self = (r, self') \<Longrightarrow>
   triangles self' = triangles self \<and> vertices self' = vertices self \<and> normals self' = normals self"
  by (cases "tri_vertices t")
     (auto simp: update_extents_def Let_def simp del: extents_loop.simps split: if_splits
           dest!: extents_loop_frame)

lemma update_extents_vertices [simp]: "vertices (snd (update_extents t m)) = vertices m"
  and update_extents_normals [simp]: "normals (snd (update_extents t m)) = normals m"
  and update_extents_triangles [simp]: "triangles (snd (update_extents t m)) = triangles m"
  using update_extents_frame [of t m] by (simp_all add: prod_eq_iff)

lemma add_triangle_degenerate_state:
  assumes "add_triangle fresh v1 v2 v3 norm' self = (Inl e, self')" and "DegenerateGeometry e"
  shows "self' = offered v3 (offered v2 (offered v1 self))"
  using assms
  by (auto simp: add_triangle_offered Let_def DegenerateGeometry_def
      split: option.splits sum.splits dest: update_extents_error)

text \<open>The calls of \<open>add_triangle\<close> on the example models, evaluated.\<close>

lemmas model_defs =
  add_triangle_def update_extents_def extents_vertex_def widen_def geometry_defs

lemma first_insert: "add_triangle 14 (pt 11 0 0 0) (pt 12 1 0 0) (pt 13 0 1 0) None empty_model = (Inr (), model_once)"
  by (simp add: model_defs key_evals)

lemma second_insert: "add_triangle 15 (pt 11 0 0 0) (pt 12 1 0 0) (pt 13 0 1 0) None model_once = (Inr (), model_twice)"
  by (simp add: model_defs key_evals)

lemma sloped_insert:
  "add_triangle 14 (pt 11 0 0 0) (pt 12 1 0 0) (pt 13 0 1 1) None empty_model = (Inr (), sloped_model)"
  by (simp add: model_defs key_evals key_string_sloped md5_sloped)

lemma degenerate_insert:
  "add_triangle 14 (pt 11 0 0 0) (pt 12 0 0 0) (pt 13 1 0 0) None empty_model =
     (Inl (ValueError ''Degenerate Facet; Coincident Points''),
      empty_model\<lparr>vertices := [hash (vec 0 0 0) \<mapsto> pt 11 0 0 0,
                               hash (vec 1 0 0) \<mapsto> pt 13 1 0 0]\<rparr>)"
  by (simp add: model_defs key_evals)

text \<open>
  C7, as the code has it. When \<open>add_triangle\<close> fails with a degenerate-geometry error, the
  triangle list, the normal pool, the six extents and the three sums are as before the call;
  the vertex pool keeps every entry it had and has gained the keys of the three vertices that
  were offered before the constructor ran.
\<close>

theorem add_triangle_degenerate_frame:
  assumes "add_triangle fresh v1 v2 v3 norm' self = (Inl e, self')" and "DegenerateGeometry e"
  shows "triangles self' = triangles self \<and> normals self' = normals self \<and>
         xmin self' = xmin self \<and> xmax self' = xmax self \<and>
         ymin self' = ymin self \<and> ymax self' = ymax self \<and>
         zmin self' = zmin self \<and> zmax self' = zmax self \<and>
         mx self' = mx self \<and> my self' = my self \<and> mz self' = mz self \<and>
         (\<forall>h v. vertices self h = Some v \<longrightarrow> vertices self' h = Some v) \<and>
         dom (vertices self') = dom (vertices self) \<union> {hash (obj v1), hash (obj v2), hash (obj v3)}"
proof -
  have s: "self' = offered v3 (offered v2 (offered v1 self))"
    using assms by (rule add_triangle_degenerate_state)
  show ?thesis
    unfolding s by (auto simp: offered_dom intro: offered_keeps)
qed

text \<open>
  The facet (0,0,0), (0,0,0), (1,0,0) offered to the empty model: the call fails with
  "Coincident Points", nothing but the vertex pool has changed, and the pool's keys are those
  of the three vertices.
\<close>

theorem add_triangle_degenerate_frame_witness:
  "add_triangle 14 (pt 11 0 0 0) (pt 12 0 0 0) (pt 13 1 0 0) None empty_model =
     (Inl (ValueError ''Degenerate Facet; Coincident Points''),
      empty_model\<lparr>vertices := [hash (vec 0 0 0) \<mapsto> pt 11 0 0 0,
                               hash (vec 1 0 0) \<mapsto> pt 13 1 0 0]\<rparr>) \<and>
   DegenerateGeometry (ValueError ''Degenerate Facet; Coincident Points'') \<and>
   triangles (empty_model\<lparr>vertices := [hash (vec 0 0 0) \<mapsto> pt 11 0 0 0,
                               hash (vec 1 0 0) \<mapsto> pt 13 1 0 0]\<rparr>) = [] \<and>
   dom (vertices (empty_model\<lparr>vertices := [hash (vec 0 0 0) \<mapsto> pt 11 0 0 0,
                               hash (vec 1 0 0) \<mapsto> pt 13 1 0 0]\<rparr>)) =
     dom (vertices empty_model) \<union>
       {hash (obj (pt 11 0 0 0)), hash (obj (pt 12 0 0 0)), hash (obj (pt 13 1 0 0))}"
proof -
  have d: "DegenerateGeometry (ValueError ''Degenerate Facet; Coincident Points'')"
    by (simp add: DegenerateGeometry_def)
  show ?thesis
    using degenerate_insert d add_triangle_degenerate_frame [OF degenerate_insert d]
    by simp
qed

text \<open>
  C7 as the specification words it (the vertex pool is the same after the failed call) fails
  on that call: the pool was empty before it and is not empty after it.
\<close>

theorem add_triangle_degenerate_counterexample:
  "Model3D_init (Some ()) = Inr empty_model \<and>
   fst (add_triangle 14 (pt 11 0 0 0) (pt 12 0 0 0) (pt 13 1 0 0) None empty_model) =
     Inl (ValueError ''Degenerate Facet; Coincident Points'') \<and>
   DegenerateGeometry (ValueError ''Degenerate Facet; Coincident Points'') \<and>
   vertices (snd (add_triangle 14 (pt 11 0 0 0) (pt 12 0 0 0) (pt 13 1 0 0) None empty_model)) \<noteq>
     vertices empty_model"
  unfolding degenerate_insert
  by (simp add: Model3D_init_def DegenerateGeometry_def)

lemma canonical_frame:
  "triangles self' = triangles self \<Longrightarrow> vertices self' = vertices self \<Longrightarrow>
   normals self' = normals self \<Longrightarrow> canonical self' = canonical self"
  by (simp add: canonical_def)

lemma offered_in_pool: "in_pool (vertices self) w \<Longrightarrow> in_pool (vertices (offered v self)) w"
  unfolding in_pool_def by (rule offered_keeps)

lemma offered_canonical: "canonical self \<Longrightarrow> canonical (offered v self)"
  unfolding canonical_def by (simp add: offered_keyed offered_in_pool)

lemma keyed_lookup: "keyed pool \<Longrightarrow> pool h = Some v \<Longrightarrow> in_pool pool v"
  by (simp add: keyed_def in_pool_def)

lemma keyed_update: "keyed pool \<Longrightarrow> keyed (pool(hash (obj n) \<mapsto> n))"
  by (simp add: keyed_def)

lemma in_pool_update:
  "in_pool pool v \<Longrightarrow> pool (hash (obj n)) = None \<Longrightarrow> in_pool (pool(hash (obj n) \<mapsto> n)) v"
  by (auto simp: in_pool_def)

lemma canonical_append_new_normal:
  assumes "canonical self" and "in_pool (vertices self) p1" and "in_pool (vertices self) p2"
    and "in_pool (vertices self) p3" and "normals self (hash (obj n)) = None"
    and "tri_vertices t = (p1, p2, p3)" and "tri_norm t = n"
  shows "canonical (self\<lparr>normals := (normals self)(hash (obj n) \<mapsto> n),
                          triangles := triangles self @ [t]\<rparr>)"
  using assms unfolding canonical_def
  by (simp add: keyed_update in_pool_update ball_Un) (simp add: in_pool_def)

lemma canonical_append_pooled_normal:
  assumes "canonical self" and "in_pool (vertices self) p1" and "in_pool (vertices self) p2"
    and "in_pool (vertices self) p3" and "normals self h = Some q"
    and "tri_vertices t = (p1, p2, p3)"
  shows "canonical (self\<lparr>triangles := triangles self @ [t\<lparr>tri_norm := q\<rparr>]\<rparr>)"
  using assms unfolding canonical_def
  by (simp add: ball_Un keyed_lookup)

lemma update_extents_canonical:
  "canonical (snd (update_extents t m)) = canonical m"
  by (rule canonical_frame) (use update_extents_frame [of t m] in \<open>simp_all add: prod_eq_iff\<close>)

lemma Triangle_init_norm:
  "Triangle_init fresh p1 p2 p3 norm' = Inr t \<Longrightarrow>
   (case norm' of Some n \<Rightarrow> n | None \<Rightarrow> tri_norm t) = tri_norm t"
  by (auto simp: Triangle_init_def Let_def split: if_splits option.splits sum.splits)

lemma add_triangle_canonical:
  assumes c: "canonical self"
  shows "canonical (snd (add_triangle fresh v1 v2 v3 norm' self))"
proof -
  define s where "s = offered v3 (offered v2 (offered v1 self))"
  have cs: "canonical s"
    unfolding s_def by (intro offered_canonical c)
  then have k: "keyed (vertices s)"
    by (simp add: canonical_def)
  note unfold = add_triangle_offered Let_def s_def [symmetric]
  show ?thesis
  proof (cases "vertices s (hash (obj v1))")
    case None
    then show ?thesis using cs by (simp add: unfold)
  next
    case p1: (Some p1)
    show ?thesis
    proof (cases "vertices s (hash (obj v2))")
      case None
      then show ?thesis using cs p1 by (simp add: unfold)
    next
      case p2: (Some p2)
      show ?thesis
      proof (cases "vertices s (hash (obj v3))")
        case None
        then show ?thesis using cs p1 p2 by (simp add: unfold)
      next
        case p3: (Some p3)
        note pools = keyed_lookup [OF k p1] keyed_lookup [OF k p2] keyed_lookup [OF k p3]
        show ?thesis
        proof (cases "Triangle_init fresh p1 p2 p3 norm'")
          case (Inl e)
          then show ?thesis using cs p1 p2 p3 by (simp add: unfold)
        next
          case (Inr t)
          note tv = Triangle_init_vertices [OF Inr]
          note tn = Triangle_init_norm [OF Inr]
          show ?thesis
          proof (cases "normals s (hash (obj (tri_norm t)))")
            case None
            let ?m = "s\<lparr>normals := (normals s)(hash (obj (tri_norm t)) \<mapsto> tri_norm t),
                          triangles := triangles s @ [t]\<rparr>"
            have "canonical ?m"
              by (rule canonical_append_new_normal [OF cs pools None tv refl])
            moreover have "add_triangle fresh v1 v2 v3 norm' self = update_extents t ?m"
              using p1 p2 p3 Inr None by (simp add: unfold tn)
            ultimately show ?thesis by (simp add: update_extents_canonical)
          next
            case (Some q)
            let ?t = "t\<lparr>tri_norm := q\<rparr>"
            let ?m = "s\<lparr>triangles := triangles s @ [?t]\<rparr>"
            have "canonical ?m"
              by (rule canonical_append_pooled_normal [OF cs pools Some tv])
            moreover have "add_triangle fresh v1 v2 v3 norm' self = update_extents ?t ?m"
              using p1 p2 p3 Inr Some by (simp add: unfold tn)
            ultimately show ?thesis by (simp add: update_extents_canonical)
          qed
        qed
      qed
    qed
  qed
qed

lemma widen_defined:
  "lo \<noteq> None \<Longrightarrow> hi \<noteq> None \<Longrightarrow>
   \<exists>lo' hi'. widen c lo hi = Inr (lo', hi') \<and> lo' \<noteq> None \<and> hi' \<noteq> None"
  by (auto simp: widen_def)

lemma extents_vertex_defined:
  assumes "extents_defined self"
  shows "\<exists>self'. extents_vertex v self = (Inr (), self') \<and> extents_defined self'"
proof -
  have d: "xmin self \<noteq> None" "xmax self \<noteq> None" "ymin self \<noteq> None" "ymax self \<noteq> None"
    "zmin self \<noteq> None" "zmax self \<noteq> None"
    using assms by (simp_all add: extents_defined_def)
  from widen_defined [OF d(1) d(2), of "vx (obj v)"] obtain xl xh where
    x: "widen (vx (obj v)) (xmin self) (xmax self) = Inr (xl, xh)" "xl \<noteq> None" "xh \<noteq> None"
    by blast
  from widen_defined [OF d(3) d(4), of "vy (obj v)"] obtain yl yh where
    y: "widen (vy (obj v)) (ymin self) (ymax self) = Inr (yl, yh)" "yl \<noteq> None" "yh \<noteq> None"
    by blast
  from widen_defined [OF d(5) d(6), of "vz (obj v)"] obtain zl zh where
    z: "widen (vz (obj v)) (zmin self) (zmax self) = Inr (zl, zh)" "zl \<noteq> None" "zh \<noteq> None"
    by blast
  show ?thesis
    using x y z by (simp add: extents_vertex_def Let_def extents_defined_def)
qed

lemma extents_loop_defined:
  "extents_defined self \<Longrightarrow>
   \<exists>self'. extents_loop vs self = (Inr (), self') \<and> extents_defined self'"
proof (induction vs arbitrary: self)
  case Nil
  then show ?case by simp
next
  case (Cons v vs)
  from extents_vertex_defined [OF Cons.prems, of v] obtain s where
    s: "extents_vertex v self = (Inr (), s)" "extents_defined s" by blast
  from Cons.IH [OF s(2)] show ?case by (simp add: s(1))
qed

lemma extents_defined_frame:
  "extents_defined (self\<lparr>triangles := ts\<rparr>) = extents_defined self"
  by (simp add: extents_defined_def)

lemma update_extents_defined:
  assumes "xmin self = None \<or> extents_defined self"
  shows "\<exists>self'. update_extents t self = (Inr (), self') \<and> extents_defined self'"
proof -
  obtain r0 r1 r2 where v: "tri_vertices t = (r0, r1, r2)"
    by (cases "tri_vertices t") auto
  show ?thesis
  proof (cases "xmin self")
    case None
    show ?thesis
      unfolding update_extents_def v Let_def
      by (simp add: None del: extents_loop.simps)
         (rule extents_loop_defined, simp add: extents_defined_def)
  next
    case (Some l)
    with assms have "extents_defined self" by simp
    then show ?thesis
      unfolding update_extents_def v Let_def
      by (simp add: Some del: extents_loop.simps)
         (rule extents_loop_defined, simp add: extents_defined_def)
  qed
qed

lemma add_triangle_vertices:
  "vertices (snd (add_triangle fresh v1 v2 v3 norm' self)) =
     vertices (offered v3 (offered v2 (offered v1 self)))"
  by (simp add: add_triangle_offered Let_def split: option.split sum.split)

lemma add_triangle_vertices_keep:
  "vertices self h = Some v \<Longrightarrow> vertices (snd (add_triangle fresh v1 v2 v3 norm' self)) h = Some v"
  by (simp add: add_triangle_vertices offered_keeps)

lemma add_triangle_normals_keep:
  "normals self h = Some n \<Longrightarrow> normals (snd (add_triangle fresh v1 v2 v3 norm' self)) h = Some n"
  by (auto simp: add_triangle_offered Let_def split: option.split sum.split)

lemma Triangle_init_again:
  assumes "Triangle_init fresh p1 p2 p3 norm' = Inr t"
  shows "\<exists>t'. Triangle_init fresh' p1 p2 p3 norm' = Inr t' \<and> tri_vertices t' = (p1, p2, p3) \<and>
              obj (tri_norm t') = obj (tri_norm t)"
  using assms
  by (auto simp: Triangle_init_def Let_def split: if_splits option.splits sum.splits)

lemma add_triangle_twice:
  assumes m0: "Model3D_init (Some f) = Inr m0"
    and first: "add_triangle fresh v1 v2 v3 norm' m0 = (Inr (), m1)"
  shows "\<exists>m2 t1 t2. add_triangle fresh' v1 v2 v3 norm' m1 = (Inr (), m2) \<and>
           triangles m2 = [t1, t2] \<and> tri_vertices t1 = tri_vertices t2 \<and>
           tri_norm t1 = tri_norm t2 \<and> card (dom (vertices m2)) \<le> 3"
proof -
  define s where "s = offered v3 (offered v2 (offered v1 m0))"
  note unfold = add_triangle_offered Let_def s_def [symmetric]
  have e: "triangles m0 = []" "normals m0 = Map.empty" "vertices m0 = Map.empty" "xmin m0 = None"
    using m0 by (auto simp: Model3D_init_def)
  have se: "triangles s = []" "normals s = Map.empty" "xmin s = None"
    by (simp_all add: s_def e)
  have sd: "dom (vertices s) = {hash (obj v1), hash (obj v2), hash (obj v3)}"
    by (auto simp: s_def offered_dom e)
  from first obtain p1 p2 p3 where
    l: "vertices s (hash (obj v1)) = Some p1" "vertices s (hash (obj v2)) = Some p2"
       "vertices s (hash (obj v3)) = Some p3"
    by (auto simp: unfold split: option.splits)
  from first l obtain t1 where t1: "Triangle_init fresh p1 p2 p3 norm' = Inr t1"
    by (auto simp: unfold split: sum.splits)
  note tn1 = Triangle_init_norm [OF t1]
  let ?m = "s\<lparr>normals := (normals s)(hash (obj (tri_norm t1)) \<mapsto> tri_norm t1),
                triangles := triangles s @ [t1]\<rparr>"
  have r1: "update_extents t1 ?m = (Inr (), m1)"
    using first l t1 by (simp add: unfold tn1 se)
  have "xmin ?m = None" by (simp add: se)
  then obtain m1' where "update_extents t1 ?m = (Inr (), m1')" "extents_defined m1'"
    using update_extents_defined [of ?m t1] by blast
  with r1 have d1: "extents_defined m1" by simp
  have f1: "vertices m1 = vertices s" "triangles m1 = [t1]"
    "normals m1 = [hash (obj (tri_norm t1)) \<mapsto> tri_norm t1]"
    using update_extents_frame [OF r1] by (simp_all add: se)
  have same: "offered v3 (offered v2 (offered v1 m1)) = m1"
    by (simp add: offered_absorb f1 sd)
  from Triangle_init_again [OF t1, of fresh'] obtain t2 where
    t2: "Triangle_init fresh' p1 p2 p3 norm' = Inr t2" "tri_vertices t2 = (p1, p2, p3)"
        "obj (tri_norm t2) = obj (tri_norm t1)"
    by blast
  note tn2 = Triangle_init_norm [OF t2(1)]
  let ?t = "t2\<lparr>tri_norm := tri_norm t1\<rparr>"
  let ?m' = "m1\<lparr>triangles := triangles m1 @ [?t]\<rparr>"
  have "extents_defined ?m'"
    using d1 by (simp add: extents_defined_frame)
  then obtain m2 where r2: "update_extents ?t ?m' = (Inr (), m2)"
    using update_extents_defined [of ?m' ?t] by blast
  have second: "add_triangle fresh' v1 v2 v3 norm' m1 = (Inr (), m2)"
    using r2 l t2 by (simp add: add_triangle_offered Let_def same tn2 f1)
  have f2: "vertices m2 = vertices s" "triangles m2 = [t1, ?t]"
    using update_extents_frame [OF r2] by (simp_all add: f1)
  have "card (dom (vertices m2)) \<le> 3"
    unfolding f2 sd by (simp add: card_insert_if)
  moreover have "tri_vertices t1 = tri_vertices ?t"
    using Triangle_init_vertices [OF t1] t2(2) by simp
  ultimately show ?thesis
    using second f2 by auto
qed

lemma canonical_once: "canonical model_once"
  by (simp add: canonical_def keyed_def in_pool_def key_evals)

text \<open>
  C4. Every call of \<open>add_triangle\<close>, whether it returns or raises, takes a canonical model
  to a canonical model: each vertex and each normal of each stored triangle is the instance
  that its pool holds under its key. An entry of either pool is never replaced, so the first
  instance seen under a key stays. And when a triple has been added to the model that
  \<open>Model3D.__init__\<close> builds, adding the same triple again succeeds and leaves a vertex pool
  of at most three entries and a list of two triangles with the same three vertex instances
  and the same normal instance, all of them the pooled ones.
\<close>

theorem add_triangle_keeps_pool_canonical:
  "(canonical self \<longrightarrow> canonical (snd (add_triangle fresh v1 v2 v3 norm' self))) \<and>
   (vertices self h = Some v \<longrightarrow>
      vertices (snd (add_triangle fresh v1 v2 v3 norm' self)) h = Some v) \<and>
   (normals self h' = Some n \<longrightarrow>
      normals (snd (add_triangle fresh v1 v2 v3 norm' self)) h' = Some n) \<and>
   (Model3D_init (Some f) = Inr m0 \<and> add_triangle fresh v1 v2 v3 norm' m0 = (Inr (), m1) \<longrightarrow>
      (\<exists>m2 t1 t2. add_triangle fresh' v1 v2 v3 norm' m1 = (Inr (), m2) \<and>
         triangles m2 = [t1, t2] \<and> tri_vertices t1 = tri_vertices t2 \<and>
         tri_norm t1 = tri_norm t2 \<and> card (dom (vertices m2)) \<le> 3 \<and> canonical m2))"
proof (intro conjI impI)
  assume "canonical self"
  then show "canonical (snd (add_triangle fresh v1 v2 v3 norm' self))"
    by (rule add_triangle_canonical)
next
  assume "vertices self h = Some v"
  then show "vertices (snd (add_triangle fresh v1 v2 v3 norm' self)) h = Some v"
    by (rule add_triangle_vertices_keep)
next
  assume "normals self h' = Some n"
  then show "normals (snd (add_triangle fresh v1 v2 v3 norm' self)) h' = Some n"
    by (rule add_triangle_normals_keep)
next
  assume a: "Model3D_init (Some f) = Inr m0 \<and> add_triangle fresh v1 v2 v3 norm' m0 = (Inr (), m1)"
  then have "canonical m0"
    by (auto simp: Model3D_init_def canonical_def keyed_def)
  then have c1: "canonical m1"
    using add_triangle_canonical [of m0 fresh v1 v2 v3 norm'] a by simp
  from a add_triangle_twice [of f m0 fresh v1 v2 v3 norm' m1 fresh'] obtain m2 t1 t2 where
    r: "add_triangle fresh' v1 v2 v3 norm' m1 = (Inr (), m2)" "triangles m2 = [t1, t2]"
       "tri_vertices t1 = tri_vertices t2" "tri_norm t1 = tri_norm t2"
       "card (dom (vertices m2)) \<le> 3"
    by blast
  have "canonical m2"
    using add_triangle_canonical [OF c1, of fresh' v1 v2 v3 norm'] r(1) by simp
  with r show "\<exists>m2 t1 t2. add_triangle fresh' v1 v2 v3 norm' m1 = (Inr (), m2) \<and>
         triangles m2 = [t1, t2] \<and> tri_vertices t1 = tri_vertices t2 \<and>
         tri_norm t1 = tri_norm t2 \<and> card (dom (vertices m2)) \<le> 3 \<and> canonical m2"
    by blast
qed

text \<open>
  The triangle (0,0,0), (1,0,0), (0,1,0) added to the empty model, and then added again.
\<close>

theorem add_triangle_keeps_pool_canonical_witness:
  "canonical model_once \<and>
   canonical (snd (add_triangle 14 (pt 11 0 0 0) (pt 12 1 0 0) (pt 13 0 1 0) None model_once)) \<and>
   vertices model_once (hash (vec 0 0 0)) = Some (pt 11 0 0 0) \<and>
   vertices (snd (add_triangle 14 (pt 11 0 0 0) (pt 12 1 0 0) (pt 13 0 1 0) None model_once))
     (hash (vec 0 0 0)) = Some (pt 11 0 0 0) \<and>
   normals model_once (hash (obj unit_normal)) = Some unit_normal \<and>
   normals (snd (add_triangle 14 (pt 11 0 0 0) (pt 12 1 0 0) (pt 13 0 1 0) None model_once))
     (hash (obj unit_normal)) = Some unit_normal \<and>
   Model3D_init (Some ()) = Inr empty_model \<and>
   add_triangle 14 (pt 11 0 0 0) (pt 12 1 0 0) (pt 13 0 1 0) None empty_model = (Inr (), model_once) \<and>
   (\<exists>m2 t1 t2.
      add_triangle 15 (pt 11 0 0 0) (pt 12 1 0 0) (pt 13 0 1 0) None model_once = (Inr (), m2) \<and>
      triangles m2 = [t1, t2] \<and> tri_vertices t1 = tri_vertices t2 \<and>
      tri_norm t1 = tri_norm t2 \<and> card (dom (vertices m2)) \<le> 3 \<and> canonical m2)"
proof -
  have c: "canonical model_once"
    by (rule canonical_once)
  have v: "vertices model_once (hash (vec 0 0 0)) = Some (pt 11 0 0 0)"
    by (simp add: key_evals)
  have n: "normals model_once (hash (obj unit_normal)) = Some unit_normal"
    by simp
  have i: "Model3D_init (Some ()) = Inr empty_model"
    by (simp add: Model3D_init_def)
  note f = first_insert
  show ?thesis
    using c v n i f
      add_triangle_keeps_pool_canonical
        [where self = model_once and fresh = 14 and ?v1.0 = "pt 11 0 0 0" and ?v2.0 = "pt 12 1 0 0"
           and ?v3.0 = "pt 13 0 1 0" and norm' = None and h = "hash (vec 0 0 0)"
           and v = "pt 11 0 0 0" and h' = "hash (obj unit_normal)" and n = unit_normal
           and f = "()" and ?m0.0 = empty_model and ?m1.0 = model_once and fresh' = 15]
    by simp
qed

subsection \<open>Slicing the whole model at a z value\<close>

lemma slice_at_z_loop_eq:
  "map (\<lambda>triangle. find_interpolated_points_at_z triangle targetz) ts = map Inr results \<Longrightarrow>
   slice_at_z_loop targetz ts output self =
     (Inr (output @ map (\<lambda>points. (points ! 0, points ! 1))
                      (filter (\<lambda>points. length points = 2) results)), self)"
proof (induction ts arbitrary: results "output")
  case Nil
  then show ?case by simp
next
  case (Cons t ts)
  from Cons.prems obtain r rs where rs: "results = r # rs"
    and r: "find_interpolated_points_at_z t targetz = Inr r"
    and rest: "map (\<lambda>triangle. find_interpolated_points_at_z triangle targetz) ts = map Inr rs"
    by (cases results) auto
  show ?case
    by (simp add: rs r Cons.IH [OF rest])
qed

lemma every_triangle_returns:
  "\<exists>results. map (\<lambda>triangle. find_interpolated_points_at_z triangle targetz) ts = map Inr results"
proof (induction ts)
  case Nil
  show ?case by simp
next
  case (Cons t ts)
  then obtain rs where
    rs: "map (\<lambda>triangle. find_interpolated_points_at_z triangle targetz) ts = map Inr rs"
    by blast
  obtain r where r: "find_interpolated_points_at_z t targetz = Inr r"
    using points_at_z_policy by blast
  have "map (\<lambda>triangle. find_interpolated_points_at_z triangle targetz) (t # ts) = map Inr (r # rs)"
    by (simp add: r rs)
  then show ?case by blast
qed

text \<open>
  C5. Every triangle of the model returns its list of points, and \<open>slice_at_z\<close> returns, in
  the order of the triangle list, the pair (\<open>points[0]\<close>, \<open>points[1]\<close>) of exactly those
  lists whose length is 2; a list of any other length adds nothing.
\<close>

theorem slice_at_z_segments:
  "\<exists>results.
     map (\<lambda>triangle. find_interpolated_points_at_z triangle targetz) (triangles self) =
       map Inr results \<and>
     fst (slice_at_z targetz self) =
       Inr (map (\<lambda>points. (points ! 0, points ! 1))
              (filter (\<lambda>points. length points = 2) results))"
proof -
  obtain results where r:
    "map (\<lambda>triangle. find_interpolated_points_at_z triangle targetz) (triangles self) =
       map Inr results"
    using every_triangle_returns by blast
  show ?thesis
    using r by (auto simp: slice_at_z_def slice_at_z_loop_eq [OF r])
qed

text \<open>
  C10. \<open>slice_at_z\<close> leaves the model as it found it: the record returned with the result
  is the one it was called on, so the triangle list (each triangle with its vertices and its
  normal), both pools, the six extents and the three sums are unchanged.
\<close>

theorem slice_at_z_read_only:
  "snd (slice_at_z targetz self) = self"
proof -
  obtain results where r:
    "map (\<lambda>triangle. find_interpolated_points_at_z triangle targetz) (triangles self) =
       map Inr results"
    using every_triangle_returns by blast
  show ?thesis
    by (simp add: slice_at_z_def slice_at_z_loop_eq [OF r])
qed

text \<open>
  The model holding the triangle (0,0,0), (1,0,0), (0,1,1): sliced at z = 1/2 it gives the one
  segment from (0,1/2) to (1/2,1/2); at z = 5 the triangle returns no point and at z = 0 it
  returns one point, and neither gives a segment.
\<close>

lemma sloped_points:
  "find_interpolated_points_at_z sloped_triangle (1 / 2) = Inr [(0, 1 / 2), (1 / 2, 1 / 2)]"
  "find_interpolated_points_at_z sloped_triangle 5 = Inr []"
  "find_interpolated_points_at_z sloped_triangle 0 = Inr [(0, 0)]"
  by (simp_all add: points_at_z_policy edge_points_def straddles_def interpolated_def Let_def
      first_vertex_at_def every_vertex_at_def)

theorem slice_at_z_segments_witness:
  "add_triangle 14 (pt 11 0 0 0) (pt 12 1 0 0) (pt 13 0 1 1) None empty_model = (Inr (), sloped_model) \<and>
   fst (slice_at_z (1 / 2) sloped_model) = Inr [((0, 1 / 2), (1 / 2, 1 / 2))] \<and>
   fst (slice_at_z 5 sloped_model) = Inr [] \<and>
   fst (slice_at_z 0 sloped_model) = Inr []"
  using sloped_insert slice_at_z_segments [of "1 / 2" sloped_model]
    slice_at_z_segments [of 5 sloped_model] slice_at_z_segments [of 0 sloped_model]
  by (auto simp: sloped_points map_eq_Cons_conv)

theorem slice_at_z_read_only_witness:
  "snd (slice_at_z (1 / 2) sloped_model) = sloped_model"
  using slice_at_z_read_only [of "1 / 2" sloped_model] .

end
